theory Spec2Isabelle
  imports Main "HOL-Library.Word"
begin

section \<open>Bytes and their hexadecimal rendering\<close>

text \<open>
  The encryption service moves every buffer through \<^verbatim>\<open>toString('hex')\<close> and
  \<^verbatim>\<open>Buffer.from(s, 'hex')\<close>. A buffer is a list of bytes; encoding writes two
  lower-case digits per byte; decoding reads pairs of digits (either case) and
  stops at the first pair that is not hexadecimal, dropping an odd last digit.
\<close>

type_synonym byte = "8 word"

definition hex_digit :: "nat \<Rightarrow> char" where
  "hex_digit n = (if n < 10 then char_of (48 + n) else char_of (87 + n))"

definition hex_val :: "char \<Rightarrow> nat option" where
  "hex_val c =
     (let n = (of_char c :: nat) in
      if 48 \<le> n \<and> n \<le> 57 then Some (n - 48)
      else if 97 \<le> n \<and> n \<le> 102 then Some (n - 87)
      else if 65 \<le> n \<and> n \<le> 70 then Some (n - 55)
      else None)"

definition to_hex :: "byte list \<Rightarrow> string" where
  "to_hex bs = concat (map (\<lambda>b. [hex_digit (unat b div 16), hex_digit (unat b mod 16)]) bs)"

fun from_hex :: "string \<Rightarrow> byte list" where
  "from_hex (a # b # cs) =
     (case (hex_val a, hex_val b) of
        (Some h, Some l) \<Rightarrow> word_of_nat (16 * h + l) # from_hex cs
      | _ \<Rightarrow> [])"
| "from_hex _ = []"

section \<open>EncryptionService\<close>

text \<open>
  The cipher objects come from the platform's crypto module, which is not part
  of the repository. They are parameters of the model:
  \<^item> \<open>cipher_run kb text\<close> stands for \<^verbatim>\<open>createCipher(algorithm, kb)\<close> followed by
    \<^verbatim>\<open>update(text, 'utf8', 'hex') + final('hex')\<close>, paired with the bytes of
    \<^verbatim>\<open>getAuthTag()\<close> (\<open>None\<close> when the cipher object has no such method);
  \<^item> \<open>decipher_run kb tag hex\<close> stands for \<^verbatim>\<open>createDecipher(algorithm, kb)\<close>,
    \<^verbatim>\<open>setAuthTag(tag)\<close> when a tag is given, then
    \<^verbatim>\<open>update(hex, 'hex', 'utf8') + final('utf8')\<close>; \<open>None\<close> when it throws;
  \<^item> \<open>json_stringify\<close> and \<open>json_parse\<close> stand for \<^verbatim>\<open>JSON.stringify\<close> and
    \<^verbatim>\<open>JSON.parse\<close> on the encrypted triple; \<open>None\<close> when parsing throws or the
    parsed value cannot be handed to \<open>decrypt\<close>.
  The only arguments \<open>createCipher\<close> and \<open>createDecipher\<close> receive in the source
  are the configured algorithm and the key buffer.
\<close>

record encrypted_data =
  encrypted :: string
  iv :: string
  tag :: "string option"

record runtime =
  cipher_run :: "byte list \<Rightarrow> string \<Rightarrow> string \<times> byte list option"
  decipher_run :: "byte list \<Rightarrow> byte list option \<Rightarrow> string \<Rightarrow> string option"
  json_stringify :: "encrypted_data \<Rightarrow> string"
  json_parse :: "string \<Rightarrow> encrypted_data option"

text \<open>\<open>generateKey\<close>: the argument is the result of \<^verbatim>\<open>randomBytes(keyLength)\<close>.\<close>

definition generateKey :: "byte list \<Rightarrow> string" where
  "generateKey random_bytes = to_hex random_bytes"

text \<open>\<open>encrypt\<close>: the first argument after the runtime is the result of
  \<^verbatim>\<open>randomBytes(ivLength)\<close>.\<close>

definition encrypt :: "runtime \<Rightarrow> byte list \<Rightarrow> string \<Rightarrow> string \<Rightarrow> encrypted_data" where
  "encrypt rt iv_bytes text key =
     (let (enc, auth) = cipher_run rt (from_hex key) text;
          tg = (case auth of Some t \<Rightarrow> to_hex t | None \<Rightarrow> [])
      in \<lparr>encrypted = enc, iv = to_hex iv_bytes, tag = Some tg\<rparr>)"

text \<open>\<open>decrypt\<close>: the tag is set only when the field is present and not the
  empty string; a throw of the decipher is \<open>None\<close>.\<close>

definition decrypt :: "runtime \<Rightarrow> encrypted_data \<Rightarrow> string \<Rightarrow> string option" where
  "decrypt rt encryptedData key =
     decipher_run rt (from_hex key)
       (case tag encryptedData of
          Some t \<Rightarrow> (if t \<noteq> [] then Some (from_hex t) else None)
        | None \<Rightarrow> None)
       (encrypted encryptedData)"

text \<open>What the platform promises of an authenticated cipher, for one key and
  one text: the cipher yields a tag that is not empty, and the decipher, given
  that tag and the ciphertext, returns the text.\<close>

definition aead_inverts :: "runtime \<Rightarrow> byte list \<Rightarrow> string \<Rightarrow> bool" where
  "aead_inverts rt kb text =
     (case cipher_run rt kb text of
        (c, Some t) \<Rightarrow> t \<noteq> [] \<and> decipher_run rt kb (Some t) c = Some text
      | (c, None) \<Rightarrow> False)"

text \<open>A small runtime for evaluating the model on concrete inputs: the cipher
  reverses the text behind a one-digit key prefix and tags it with the key.\<close>

definition toy_cipher :: "byte list \<Rightarrow> string \<Rightarrow> string \<times> byte list option" where
  "toy_cipher kb text = (to_hex (take 1 kb) @ rev text, Some (kb @ [1]))"

definition toy_decipher :: "byte list \<Rightarrow> byte list option \<Rightarrow> string \<Rightarrow> string option" where
  "toy_decipher kb tg hex =
     (if tg = Some (kb @ [1]) \<and> take (2 * length (take 1 kb)) hex = to_hex (take 1 kb)
      then Some (rev (drop (2 * length (take 1 kb)) hex)) else None)"

definition toy_stringify :: "encrypted_data \<Rightarrow> string" where
  "toy_stringify e =
     encrypted e @ ''|'' @ iv e @ ''|'' @ (case tag e of Some t \<Rightarrow> t | None \<Rightarrow> [])"

definition toy_parse :: "string \<Rightarrow> encrypted_data option" where
  "toy_parse s =
     (let a = takeWhile (\<lambda>c. c \<noteq> CHR ''|'') s;
          r = drop (Suc (length a)) s;
          b = takeWhile (\<lambda>c. c \<noteq> CHR ''|'') r;
          t = drop (Suc (length b)) r
      in if length a < length s \<and> length b < length r
         then Some \<lparr>encrypted = a, iv = b, tag = Some t\<rparr> else None)"

definition toy_runtime :: runtime where
  "toy_runtime = \<lparr>cipher_run = toy_cipher, decipher_run = toy_decipher,
                   json_stringify = toy_stringify, json_parse = toy_parse\<rparr>"

section \<open>Documents and the document store\<close>

text \<open>
  Identifiers handed out by the database are modelled as natural numbers, user
  ids as strings, dates as integers (milliseconds). The database matches an
  \<^verbatim>\<open>_id\<close> by equality. The optional fields \<^verbatim>\<open>reactions\<close>, \<^verbatim>\<open>fileUrl\<close>,
  \<^verbatim>\<open>fileName\<close> and \<^verbatim>\<open>fileSize\<close> of a message are written by no caller in the
  repository and are left out. \<open>messageType\<close> is the string the client sent.
\<close>

type_synonym oid = nat
type_synonym uid = string

record message =
  msg_id :: "oid option"
  chatId :: oid
  senderId :: uid
  senderName :: string
  content :: string
  encryptedContent :: "string option"
  messageType :: string
  timestamp :: int
  edited :: "bool option"
  editedAt :: "int option"
  replyTo :: "oid option"

text \<open>The argument of \<open>sendMessage\<close>, with the fields its two callers pass.\<close>

record message_data =
  md_chatId :: oid
  md_senderId :: uid
  md_senderName :: string
  md_content :: string
  md_messageType :: string
  md_replyTo :: "oid option"

record chat_room =
  room_id :: "oid option"
  name :: string
  description :: "string option"
  participants :: "uid list"
  createdBy :: uid
  createdAt :: int
  isPrivate :: bool
  encryptionKey :: "string option"

text \<open>The argument of \<open>createChatRoom\<close>, with the fields its caller passes.\<close>

record room_data =
  rd_name :: string
  rd_description :: "string option"
  rd_participants :: "uid list"
  rd_createdBy :: uid
  rd_isPrivate :: bool

datatype error = Error string

record db =
  chatrooms :: "chat_room list"
  messages :: "message list"
  next_oid :: oid

definition empty_db :: db where
  "empty_db = \<lparr>chatrooms = [], messages = [], next_oid = 0\<rparr>"

text \<open>\<open>insertOne\<close>: the document is stored under a fresh id, which is returned.\<close>

definition insert_room :: "db \<Rightarrow> chat_room \<Rightarrow> oid \<times> db" where
  "insert_room d r =
     (next_oid d,
      d\<lparr>chatrooms := chatrooms d @ [r\<lparr>room_id := Some (next_oid d)\<rparr>],
        next_oid := Suc (next_oid d)\<rparr>)"

definition insert_message :: "db \<Rightarrow> message \<Rightarrow> oid \<times> db" where
  "insert_message d m =
     (next_oid d,
      d\<lparr>messages := messages d @ [m\<lparr>msg_id := Some (next_oid d)\<rparr>],
        next_oid := Suc (next_oid d)\<rparr>)"

text \<open>The filter \<^verbatim>\<open>{ _id: messageId, senderId: userId }\<close>.\<close>

definition by_id_and_sender :: "oid \<Rightarrow> uid \<Rightarrow> message \<Rightarrow> bool" where
  "by_id_and_sender messageId userId m \<longleftrightarrow> msg_id m = Some messageId \<and> senderId m = userId"

text \<open>\<open>deleteOne\<close> removes the first document that matches.\<close>

fun delete_one :: "('a \<Rightarrow> bool) \<Rightarrow> 'a list \<Rightarrow> 'a list" where
  "delete_one P [] = []"
| "delete_one P (x # xs) = (if P x then xs else x # delete_one P xs)"

text \<open>\<open>updateOne\<close> rewrites the first document that matches; \<open>modifiedCount\<close>
  counts it only when the rewrite changed it.\<close>

fun update_one :: "('a \<Rightarrow> bool) \<Rightarrow> ('a \<Rightarrow> 'a) \<Rightarrow> 'a list \<Rightarrow> nat \<times> 'a list" where
  "update_one P f [] = (0, [])"
| "update_one P f (x # xs) =
     (if P x then ((if f x = x then 0 else 1), f x # xs)
      else (let (n, ys) = update_one P f xs in (n, x # ys)))"

text \<open>The cursor \<^verbatim>\<open>find({chatId}).sort({timestamp: -1}).limit(limit).skip(skip)\<close>:
  the driver sorts, then skips, then limits, whatever the order of the calls;
  a limit of zero is no limit, a negative limit counts as its absolute value, a
  negative skip is refused.\<close>

definition window :: "int \<Rightarrow> int \<Rightarrow> 'a list \<Rightarrow> 'a list" where
  "window limit skip xs =
     (let skipped = drop (nat skip) xs
      in if limit = 0 then skipped else take (nat \<bar>limit\<bar>) skipped)"

definition newest_first :: "db \<Rightarrow> oid \<Rightarrow> message list" where
  "newest_first d cid =
     sort_key (\<lambda>m. - timestamp m) (filter (\<lambda>m. chatId m = cid) (messages d))"

definition find_page :: "db \<Rightarrow> oid \<Rightarrow> int \<Rightarrow> int \<Rightarrow> error + message list" where
  "find_page d cid limit skip =
     (if skip < 0 then Inl (Error ''skip value must be non-negative'')
      else Inr (window limit skip (newest_first d cid)))"

section \<open>MessageService\<close>

text \<open>The static field \<open>MessageService.encryptionKey\<close> is initialised once, when the
  class is loaded, from \<open>generateKey\<close>; the operations below take its value as
  the argument \<open>key\<close>.\<close>

definition service_encryptionKey :: "byte list \<Rightarrow> string" where
  "service_encryptionKey random_bytes = generateKey random_bytes"

definition createChatRoom :: "string \<Rightarrow> db \<Rightarrow> int \<Rightarrow> room_data \<Rightarrow> chat_room \<times> db" where
  "createChatRoom key d now roomData =
     (let room = \<lparr>room_id = None, name = rd_name roomData,
                   description = rd_description roomData,
                   participants = rd_participants roomData,
                   createdBy = rd_createdBy roomData, createdAt = now,
                   isPrivate = rd_isPrivate roomData, encryptionKey = Some key\<rparr>;
          (i, d') = insert_room d room
      in (room\<lparr>room_id := Some i\<rparr>, d'))"

definition getChatRoom :: "db \<Rightarrow> oid \<Rightarrow> chat_room option" where
  "getChatRoom d roomId = find (\<lambda>r. room_id r = Some roomId) (chatrooms d)"

definition getUserChatRooms :: "db \<Rightarrow> uid \<Rightarrow> chat_room list" where
  "getUserChatRooms d userId =
     sort_key (\<lambda>r. - createdAt r) (filter (\<lambda>r. userId \<in> set (participants r)) (chatrooms d))"

text \<open>\<^verbatim>\<open>room?.encryptionKey\<close> as a condition: the key, when there is a room and its
  key is present and not the empty string.\<close>

definition room_key :: "chat_room option \<Rightarrow> string option" where
  "room_key room =
     (case room of
        None \<Rightarrow> None
      | Some r \<Rightarrow> (case encryptionKey r of
                    None \<Rightarrow> None
                  | Some k \<Rightarrow> (if k = [] then None else Some k)))"

definition sendMessage ::
  "runtime \<Rightarrow> db \<Rightarrow> int \<Rightarrow> byte list \<Rightarrow> message_data \<Rightarrow> error + message \<times> db" where
  "sendMessage rt d now iv_bytes messageData =
     (case room_key (getChatRoom d (md_chatId messageData)) of
        None \<Rightarrow> Inl (Error ''Chat room encryption key not found'')
      | Some k \<Rightarrow>
          let encrypted = encrypt rt iv_bytes (md_content messageData) k;
              message = \<lparr>msg_id = None, chatId = md_chatId messageData,
                         senderId = md_senderId messageData,
                         senderName = md_senderName messageData,
                         content = md_content messageData,
                         encryptedContent = Some (json_stringify rt encrypted),
                         messageType = md_messageType messageData,
                         timestamp = now, edited = None, editedAt = None,
                         replyTo = md_replyTo messageData\<rparr>;
              (i, d') = insert_message d message
          in Inr (message\<lparr>msg_id := Some i\<rparr>, d'))"

definition decryption_failed :: string where
  "decryption_failed = ''[Encrypted message - decryption failed]''"

text \<open>The body of the \<open>forEach\<close> in \<open>getMessages\<close>: the \<open>try\<close> covers both the
  parse and the decryption.\<close>

definition decrypt_message :: "runtime \<Rightarrow> string \<Rightarrow> message \<Rightarrow> message" where
  "decrypt_message rt k m =
     (case encryptedContent m of
        None \<Rightarrow> m
      | Some ec \<Rightarrow>
          if ec = [] then m
          else (case json_parse rt ec of
                  None \<Rightarrow> m\<lparr>content := decryption_failed\<rparr>
                | Some encryptedData \<Rightarrow>
                    (case decrypt rt encryptedData k of
                       None \<Rightarrow> m\<lparr>content := decryption_failed\<rparr>
                     | Some text \<Rightarrow> m\<lparr>content := text\<rparr>)))"

definition getMessages :: "runtime \<Rightarrow> db \<Rightarrow> oid \<Rightarrow> int \<Rightarrow> int \<Rightarrow> error + message list" where
  "getMessages rt d cid limit skip =
     (case find_page d cid limit skip of
        Inl e \<Rightarrow> Inl e
      | Inr msgs \<Rightarrow>
          Inr (rev (case room_key (getChatRoom d cid) of
                      Some k \<Rightarrow> map (decrypt_message rt k) msgs
                    | None \<Rightarrow> msgs)))"

definition deleteMessage :: "db \<Rightarrow> oid \<Rightarrow> uid \<Rightarrow> bool \<times> db" where
  "deleteMessage d messageId userId =
     (let ms = delete_one (by_id_and_sender messageId userId) (messages d);
          deletedCount = length (messages d) - length ms
      in (deletedCount > 0, d\<lparr>messages := ms\<rparr>))"

definition editMessage ::
  "runtime \<Rightarrow> db \<Rightarrow> int \<Rightarrow> byte list \<Rightarrow> oid \<Rightarrow> uid \<Rightarrow> string \<Rightarrow> bool \<times> db" where
  "editMessage rt d now iv_bytes messageId userId newContent =
     (case find (by_id_and_sender messageId userId) (messages d) of
        None \<Rightarrow> (False, d)
      | Some message \<Rightarrow>
          (case room_key (getChatRoom d (chatId message)) of
             None \<Rightarrow> (False, d)
           | Some k \<Rightarrow>
               let encrypted = encrypt rt iv_bytes newContent k;
                   (modifiedCount, ms) =
                     update_one (by_id_and_sender messageId userId)
                       (\<lambda>m. m\<lparr>content := newContent,
                               encryptedContent := Some (json_stringify rt encrypted),
                               edited := Some True, editedAt := Some now\<rparr>)
                       (messages d)
               in (modifiedCount > 0, d\<lparr>messages := ms\<rparr>)))"

text \<open>The mutating operations of the service as a sequence of calls, each with the
  clock reading and random bytes it draws.\<close>

datatype op =
  CreateRoom int room_data
| Send int "byte list" message_data
| Edit int "byte list" oid uid string
| Delete oid uid

fun step :: "runtime \<Rightarrow> string \<Rightarrow> db \<Rightarrow> op \<Rightarrow> db" where
  "step rt key d (CreateRoom now roomData) = snd (createChatRoom key d now roomData)"
| "step rt key d (Send now iv_bytes messageData) =
     (case sendMessage rt d now iv_bytes messageData of Inl e \<Rightarrow> d | Inr (m, d') \<Rightarrow> d')"
| "step rt key d (Edit now iv_bytes messageId userId newContent) =
     snd (editMessage rt d now iv_bytes messageId userId newContent)"
| "step rt key d (Delete messageId userId) = snd (deleteMessage d messageId userId)"

definition run :: "runtime \<Rightarrow> string \<Rightarrow> db \<Rightarrow> op list \<Rightarrow> db" where
  "run rt key d ops = foldl (step rt key) d ops"

text \<open>Identifiers in a store are unique and below the next one to be handed out.\<close>

definition wf_db :: "db \<Rightarrow> bool" where
  "wf_db d \<longleftrightarrow>
     distinct (map msg_id (messages d)) \<and>
     distinct (map room_id (chatrooms d)) \<and>
     set (map msg_id (messages d)) \<subseteq> Some ` {..<next_oid d} \<and>
     set (map room_id (chatrooms d)) \<subseteq> Some ` {..<next_oid d}"

section \<open>The message routes\<close>

text \<open>
  Every route runs behind the authentication middleware, so a request carries
  the authenticated user. A path parameter is either the text of an object id,
  which \<open>isMongoId\<close> accepts, or some other string. A body field that is absent
  reaches the validators as the empty string.
\<close>

record user =
  user_id :: uid
  displayName :: "string option"
  email :: string

text \<open>\<^verbatim>\<open>user.displayName || user.email\<close>\<close>

definition display_or_email :: "user \<Rightarrow> string" where
  "display_or_email u =
     (case displayName u of None \<Rightarrow> email u | Some n \<Rightarrow> (if n = [] then email u else n))"

datatype param = MongoId oid | NotMongoId string

fun isMongoId :: "param \<Rightarrow> bool" where
  "isMongoId (MongoId i) = True"
| "isMongoId (NotMongoId s) = False"

text \<open>The id a parameter is used as by the service: a string that is no object
  id matches no document.\<close>

fun param_oid :: "param \<Rightarrow> oid option" where
  "param_oid (MongoId i) = Some i"
| "param_oid (NotMongoId s) = None"

definition isLength :: "nat \<Rightarrow> nat \<Rightarrow> string \<Rightarrow> bool" where
  "isLength mn mx s \<longleftrightarrow> mn \<le> length s \<and> length s \<le> mx"

datatype json =
  JsonError string
| JsonValidationFailed "string list"
| JsonInfo string
| JsonMessage message

record response =
  status :: nat
  body :: json

text \<open>\<open>validateRequest\<close>: any validation error ends the request with status 400.\<close>

definition validateRequest :: "string list \<Rightarrow> response option" where
  "validateRequest errors =
     (if errors \<noteq> [] then Some \<lparr>status = 400, body = JsonValidationFailed errors\<rparr> else None)"

definition check :: "string \<Rightarrow> bool \<Rightarrow> string list" where
  "check field ok = (if ok then [] else [field])"

text \<open>\<^verbatim>\<open>POST /rooms/:roomId/messages\<close>\<close>

definition post_message ::
  "runtime \<Rightarrow> db \<Rightarrow> int \<Rightarrow> byte list \<Rightarrow> user \<Rightarrow> param \<Rightarrow> string \<Rightarrow> string \<Rightarrow> oid option
     \<Rightarrow> response \<times> db" where
  "post_message rt d now iv_bytes usr roomId cont mtype reply =
     (case validateRequest
             (check ''roomId'' (isMongoId roomId) @
              check ''content'' (isLength 1 5000 cont) @
              check ''messageType'' (mtype \<in> set [''text'', ''file'', ''image''])) of
        Some r \<Rightarrow> (r, d)
      | None \<Rightarrow>
          (case param_oid roomId of
             None \<Rightarrow> (\<lparr>status = 500, body = JsonError ''Failed to send message''\<rparr>, d)
           | Some rid \<Rightarrow>
               (case sendMessage rt d now iv_bytes
                       \<lparr>md_chatId = rid, md_senderId = user_id usr,
                        md_senderName = display_or_email usr, md_content = cont,
                        md_messageType = mtype, md_replyTo = reply\<rparr> of
                  Inl e \<Rightarrow> (\<lparr>status = 500, body = JsonError ''Failed to send message''\<rparr>, d)
                | Inr (message, d') \<Rightarrow> (\<lparr>status = 201, body = JsonMessage message\<rparr>, d'))))"

text \<open>\<^verbatim>\<open>PUT /messages/:messageId\<close>\<close>

definition put_message ::
  "runtime \<Rightarrow> db \<Rightarrow> int \<Rightarrow> byte list \<Rightarrow> user \<Rightarrow> param \<Rightarrow> string \<Rightarrow> response \<times> db" where
  "put_message rt d now iv_bytes usr messageId cont =
     (case validateRequest
             (check ''messageId'' (isMongoId messageId) @
              check ''content'' (isLength 1 5000 cont)) of
        Some r \<Rightarrow> (r, d)
      | None \<Rightarrow>
          (case param_oid messageId of
             None \<Rightarrow> (\<lparr>status = 404, body = JsonError ''Message not found or unauthorized''\<rparr>, d)
           | Some mid \<Rightarrow>
               (let (success, d') = editMessage rt d now iv_bytes mid (user_id usr) cont
                in if \<not> success
                   then (\<lparr>status = 404, body = JsonError ''Message not found or unauthorized''\<rparr>, d')
                   else (\<lparr>status = 200, body = JsonInfo ''Message updated successfully''\<rparr>, d'))))"

text \<open>\<^verbatim>\<open>DELETE /messages/:messageId\<close>\<close>

definition delete_message_route :: "db \<Rightarrow> user \<Rightarrow> param \<Rightarrow> response \<times> db" where
  "delete_message_route d usr messageId =
     (case validateRequest (check ''messageId'' (isMongoId messageId)) of
        Some r \<Rightarrow> (r, d)
      | None \<Rightarrow>
          (case param_oid messageId of
             None \<Rightarrow> (\<lparr>status = 404, body = JsonError ''Message not found or unauthorized''\<rparr>, d)
           | Some mid \<Rightarrow>
               (let (success, d') = deleteMessage d mid (user_id usr)
                in if \<not> success
                   then (\<lparr>status = 404, body = JsonError ''Message not found or unauthorized''\<rparr>, d')
                   else (\<lparr>status = 200, body = JsonInfo ''Message deleted successfully''\<rparr>, d'))))"

section \<open>The socket handlers\<close>

text \<open>
  The socket server keeps the connected sockets, each with the user its
  handshake authenticated, and for every socket the rooms it has joined.
  An emission is the list of (socket, event) pairs it delivers:
  \<^verbatim>\<open>io.to(r)\<close> reaches the sockets joined to \<open>r\<close>, \<^verbatim>\<open>socket.to(r)\<close> the same
  without the socket itself, \<^verbatim>\<open>socket.emit\<close> the socket itself, and
  \<^verbatim>\<open>socket.broadcast\<close> every connected socket but itself. The private room
  a socket holds under its own socket id is no chat id and is left out.
\<close>

type_synonym sid = nat

record io_state =
  sockets :: "(sid \<times> user) list"
  joined :: "sid \<Rightarrow> oid set"

datatype event =
  NewMessage message
| UserTyping uid string
| UserStoppedTyping uid
| MessageEdited oid string bool int
| MessageDeleted oid
| ErrorEvent string

definition io_to :: "io_state \<Rightarrow> oid \<Rightarrow> event \<Rightarrow> (sid \<times> event) list" where
  "io_to io r e = map (\<lambda>(s, u). (s, e)) (filter (\<lambda>(s, u). r \<in> joined io s) (sockets io))"

definition socket_to :: "io_state \<Rightarrow> sid \<Rightarrow> oid \<Rightarrow> event \<Rightarrow> (sid \<times> event) list" where
  "socket_to io self r e =
     map (\<lambda>(s, u). (s, e)) (filter (\<lambda>(s, u). s \<noteq> self \<and> r \<in> joined io s) (sockets io))"

definition socket_emit :: "sid \<Rightarrow> event \<Rightarrow> (sid \<times> event) list" where
  "socket_emit self e = [(self, e)]"

definition socket_broadcast :: "io_state \<Rightarrow> sid \<Rightarrow> event \<Rightarrow> (sid \<times> event) list" where
  "socket_broadcast io self e =
     map (\<lambda>(s, u). (s, e)) (filter (\<lambda>(s, u). s \<noteq> self) (sockets io))"

text \<open>\<^verbatim>\<open>join-rooms\<close>\<close>

definition on_join_rooms :: "io_state \<Rightarrow> sid \<Rightarrow> oid list \<Rightarrow> io_state" where
  "on_join_rooms io self roomIds = io\<lparr>joined := (joined io)(self := joined io self \<union> set roomIds)\<rparr>"

text \<open>\<^verbatim>\<open>send-message\<close>: \<open>messageType\<close> defaults to \<^verbatim>\<open>'text'\<close> when the client sent none.\<close>

definition on_send_message ::
  "runtime \<Rightarrow> db \<Rightarrow> io_state \<Rightarrow> int \<Rightarrow> byte list \<Rightarrow> sid \<Rightarrow> user
     \<Rightarrow> oid \<Rightarrow> string \<Rightarrow> string option \<Rightarrow> oid option \<Rightarrow> db \<times> (sid \<times> event) list" where
  "on_send_message rt d io now iv_bytes self usr cid cont mtype reply =
     (case sendMessage rt d now iv_bytes
             \<lparr>md_chatId = cid, md_senderId = user_id usr,
              md_senderName = display_or_email usr, md_content = cont,
              md_messageType = (case mtype of None \<Rightarrow> ''text'' | Some t \<Rightarrow> t),
              md_replyTo = reply\<rparr> of
        Inr (message, d') \<Rightarrow> (d', io_to io cid (NewMessage message))
      | Inl e \<Rightarrow> (d, socket_emit self (ErrorEvent ''Failed to send message'')))"

text \<open>\<^verbatim>\<open>typing-start\<close> and \<^verbatim>\<open>typing-stop\<close>\<close>

definition on_typing_start :: "io_state \<Rightarrow> sid \<Rightarrow> user \<Rightarrow> oid \<Rightarrow> (sid \<times> event) list" where
  "on_typing_start io self usr cid =
     socket_to io self cid (UserTyping (user_id usr) (display_or_email usr))"

definition on_typing_stop :: "io_state \<Rightarrow> sid \<Rightarrow> user \<Rightarrow> oid \<Rightarrow> (sid \<times> event) list" where
  "on_typing_stop io self usr cid = socket_to io self cid (UserStoppedTyping (user_id usr))"

text \<open>\<^verbatim>\<open>edit-message\<close>: \<open>now'\<close> is the clock reading for the event.\<close>

definition on_edit_message ::
  "runtime \<Rightarrow> db \<Rightarrow> io_state \<Rightarrow> int \<Rightarrow> int \<Rightarrow> byte list \<Rightarrow> sid \<Rightarrow> user
     \<Rightarrow> oid \<Rightarrow> string \<Rightarrow> db \<times> (sid \<times> event) list" where
  "on_edit_message rt d io now now' iv_bytes self usr messageId cont =
     (let (success, d') = editMessage rt d now iv_bytes messageId (user_id usr) cont
      in if success
         then (let message = MessageEdited messageId cont True now'
               in (d', socket_emit self message @ socket_broadcast io self message))
         else (d', socket_emit self (ErrorEvent ''Failed to edit message'')))"

text \<open>\<^verbatim>\<open>delete-message\<close>\<close>

definition on_delete_message ::
  "db \<Rightarrow> io_state \<Rightarrow> sid \<Rightarrow> user \<Rightarrow> oid \<Rightarrow> db \<times> (sid \<times> event) list" where
  "on_delete_message d io self usr messageId =
     (let (success, d') = deleteMessage d messageId (user_id usr)
      in if success
         then (d', socket_emit self (MessageDeleted messageId) @
                   socket_broadcast io self (MessageDeleted messageId))
         else (d', socket_emit self (ErrorEvent ''Failed to delete message'')))"

text \<open>The recipients of an emission.\<close>

definition recipients :: "(sid \<times> event) list \<Rightarrow> sid set" where
  "recipients ds = fst ` set ds"

section \<open>A small system for evaluation\<close>

definition key0 :: string where
  "key0 = service_encryptionKey [7, 8, 9]"

definition alice :: user where
  "alice = \<lparr>user_id = ''alice'', displayName = Some ''Alice'', email = ''alice@example.org''\<rparr>"

definition bob :: user where
  "bob = \<lparr>user_id = ''bob'', displayName = None, email = ''bob@example.org''\<rparr>"

definition carol :: user where
  "carol = \<lparr>user_id = ''carol'', displayName = Some [], email = ''carol@example.org''\<rparr>"

definition general :: room_data where
  "general = \<lparr>rd_name = ''general'', rd_description = None, rd_participants = [''alice''],
               rd_createdBy = ''alice'', rd_isPrivate = False\<rparr>"

definition random_room :: room_data where
  "random_room = \<lparr>rd_name = ''random'', rd_description = Some ''anything'',
                   rd_participants = [''bob''], rd_createdBy = ''bob'', rd_isPrivate = True\<rparr>"

text \<open>The store after the rooms \<open>general\<close> (id 0) and \<open>random\<close> (id 1) were
  created, and after alice sent \<open>hello\<close> to the first (message id 2).\<close>

definition db_room :: db where
  "db_room = run toy_runtime key0 empty_db [CreateRoom 1000 general, CreateRoom 1500 random_room]"

definition hello :: message_data where
  "hello = \<lparr>md_chatId = 0, md_senderId = ''alice'', md_senderName = ''Alice'',
             md_content = ''hello'', md_messageType = ''text'', md_replyTo = None\<rparr>"

definition db_hello :: db where
  "db_hello = run toy_runtime key0 db_room [Send 2000 [5, 6] hello]"

text \<open>Three connected sockets: alice (11) and bob (12) have joined room 0,
  carol (13) has joined nothing.\<close>

definition io_abc :: io_state where
  "io_abc = on_join_rooms (on_join_rooms \<lparr>sockets = [(11, alice), (12, bob), (13, carol)],
                                           joined = (\<lambda>s. {})\<rparr> 11 [0]) 12 [0]"

text \<open>The same store with one more record in room 0 whose tag was altered.\<close>

definition tampered :: message where
  "tampered = \<lparr>msg_id = Some 3, chatId = 0, senderId = ''bob'',
                senderName = ''bob@example.org'', content = ''secret'',
                encryptedContent = Some ''07terces|0506|ff'',
                messageType = ''text'', timestamp = 2500, edited = None,
                editedAt = None, replyTo = None\<rparr>"

definition db_tampered :: db where
  "db_tampered = db_hello\<lparr>messages := messages db_hello @ [tampered], next_oid := 4\<rparr>"

section \<open>Hexadecimal round trip\<close>

lemma hex_val_digit: "n < 16 \<Longrightarrow> hex_val (hex_digit n) = Some n"
proof (cases "n < 10")
  case True
  then have "(48 + n) mod 256 = 48 + n" by simp
  with True show ?thesis by (simp add: hex_val_def hex_digit_def Let_def)
next
  case False
  assume "n < 16"
  with False have "(87 + n) mod 256 = 87 + n" by simp
  with False \<open>n < 16\<close> show ?thesis by (simp add: hex_val_def hex_digit_def Let_def)
qed

lemma unat_byte_div: "unat (b::byte) div 16 < 16"
proof -
  have "unat b < 256" using unsigned_less [of b] by simp
  then show ?thesis by simp
qed

lemma from_hex_to_hex: "from_hex (to_hex bs) = bs"
proof (induction bs)
  case Nil
  then show ?case by (simp add: to_hex_def)
next
  case (Cons b bs)
  have m: "unat b mod 16 < 16" by simp
  from Cons show ?case
    using hex_val_digit [OF unat_byte_div [of b]] hex_val_digit [OF m]
    by (simp add: to_hex_def)
qed

lemma to_hex_eq_Nil: "to_hex bs = [] \<longleftrightarrow> bs = []"
  by (cases bs) (simp_all add: to_hex_def)

section \<open>Properties of the encryption service\<close>

text \<open>
  Claim C4 (encrypt/decrypt round trip). For every plaintext \<open>P\<close> and every key
  produced by \<open>generateKey\<close>, decrypting the output of \<open>encrypt\<close> under the same
  key returns \<open>P\<close>, whatever nonce was drawn: the key buffer, the ciphertext
  and the tag reach the decipher as the cipher produced them. The platform's
  cipher is taken to invert under its own tag (\<open>aead_inverts\<close>).
\<close>

theorem encrypt_decrypt_roundtrip:
  assumes "aead_inverts rt random_bytes P"
  shows "decrypt rt (encrypt rt iv_bytes P (generateKey random_bytes)) (generateKey random_bytes) = Some P"
proof -
  obtain c a where ca: "cipher_run rt random_bytes P = (c, a)" by (cases "cipher_run rt random_bytes P")
  with assms obtain t where t: "a = Some t" "t \<noteq> []" "decipher_run rt random_bytes (Some t) c = Some P"
    by (auto simp: aead_inverts_def split: option.splits)
  show ?thesis
    using ca t by (simp add: decrypt_def encrypt_def generateKey_def from_hex_to_hex to_hex_eq_Nil)
qed

theorem encrypt_decrypt_roundtrip_witness:
  "aead_inverts toy_runtime [7, 8, 9] ''hello'' \<and>
   decrypt toy_runtime (encrypt toy_runtime [1, 2] ''hello'' (generateKey [7, 8, 9])) (generateKey [7, 8, 9]) = Some ''hello''"
  using encrypt_decrypt_roundtrip [of toy_runtime "[7, 8, 9]" "''hello''" "[1, 2]"]
  by (simp add: aead_inverts_def toy_runtime_def toy_cipher_def toy_decipher_def to_hex_def)

text \<open>
  Claim C5 (nonce freshness). The nonce drawn by \<open>encrypt\<close> is returned in the
  field \<open>iv\<close> but is no input of the cipher: ciphertext and tag are the same
  for any two nonces, so two encryptions of one plaintext under one key do
  not differ through their nonces.
\<close>

theorem encrypt_ignores_iv:
  "encrypted (encrypt rt iv1 text key) = encrypted (encrypt rt iv2 text key) \<and>
   tag (encrypt rt iv1 text key) = tag (encrypt rt iv2 text key) \<and>
   iv (encrypt rt iv1 text key) = to_hex iv1"
  by (simp add: encrypt_def split: prod.splits)

section \<open>The document store\<close>

lemma find_other_sender:
  assumes "distinct (map msg_id ms)" "m \<in> set ms" "msg_id m = Some mid" "senderId m \<noteq> u"
  shows "find (by_id_and_sender mid u) ms = None"
proof -
  have "\<not> by_id_and_sender mid u m'" if "m' \<in> set ms" for m'
  proof
    assume "by_id_and_sender mid u m'"
    then have "msg_id m' = msg_id m" "senderId m' = u"
      using assms(3) by (simp_all add: by_id_and_sender_def)
    moreover have "inj_on msg_id (set ms)" using assms(1) by (simp add: distinct_map)
    ultimately have "m' = m" using that assms(2) by (auto dest: inj_onD)
    with \<open>senderId m' = u\<close> assms(4) show False by simp
  qed
  then show ?thesis by (simp add: find_None_iff)
qed

lemma find_missing_id:
  assumes "Some mid \<notin> set (map msg_id ms)"
  shows "find (by_id_and_sender mid u) ms = None"
  using assms by (force simp: find_None_iff by_id_and_sender_def)

lemma delete_one_no_match: "find P xs = None \<Longrightarrow> delete_one P xs = xs"
  by (induction xs) (auto split: if_splits)

lemma delete_one_subset: "set (delete_one P xs) \<subseteq> set xs"
  by (induction xs) auto

lemma delete_one_distinct: "distinct (map f xs) \<Longrightarrow> distinct (map f (delete_one P xs))"
proof (induction xs)
  case Nil then show ?case by simp
next
  case (Cons x xs)
  then show ?case using delete_one_subset [of P xs] by auto
qed

lemma update_one_map:
  "(\<And>x. g (f x) = g x) \<Longrightarrow> map g (snd (update_one P f xs)) = map g xs"
  by (induction xs) (auto split: prod.splits)

lemma update_one_hit:
  "find P xs \<noteq> None \<Longrightarrow> \<exists>x \<in> set xs. P x \<and> f x \<in> set (snd (update_one P f xs))"
  by (induction xs) (auto split: prod.splits if_splits)

lemma editMessage_no_match:
  "find (by_id_and_sender mid u) (messages d) = None \<Longrightarrow> editMessage rt d now ivb mid u c = (False, d)"
  by (simp add: editMessage_def)

lemma deleteMessage_no_match:
  "find (by_id_and_sender mid u) (messages d) = None \<Longrightarrow> deleteMessage d mid u = (False, d)"
  by (simp add: deleteMessage_def delete_one_no_match)

lemma chatrooms_editMessage: "chatrooms (snd (editMessage rt d now ivb mid u c)) = chatrooms d"
  by (simp add: editMessage_def split: option.splits prod.splits)

lemma chatrooms_deleteMessage: "chatrooms (snd (deleteMessage d mid u)) = chatrooms d"
  by (simp add: deleteMessage_def Let_def)

lemma chatrooms_sendMessage: "sendMessage rt d now ivb md = Inr (m, d') \<Longrightarrow> chatrooms d' = chatrooms d"
  by (auto simp: sendMessage_def insert_message_def Let_def split: option.splits)

lemma chatrooms_createChatRoom:
  "chatrooms (snd (createChatRoom key d now rd)) = chatrooms d @ [fst (createChatRoom key d now rd)]"
  by (simp add: createChatRoom_def insert_room_def Let_def)

lemma key_createChatRoom: "encryptionKey (fst (createChatRoom key d now rd)) = Some key"
  by (simp add: createChatRoom_def insert_room_def Let_def)

lemma chatrooms_step:
  "chatrooms (step rt key d o') = chatrooms d \<or>
   (\<exists>r. chatrooms (step rt key d o') = chatrooms d @ [r] \<and> encryptionKey r = Some key)"
proof (cases o')
  case (CreateRoom now rd)
  then show ?thesis by (simp add: chatrooms_createChatRoom key_createChatRoom)
next
  case (Send now ivb md)
  then show ?thesis by (auto split: sum.splits dest: chatrooms_sendMessage)
next
  case (Edit now ivb mid u c)
  then show ?thesis by (simp add: chatrooms_editMessage)
next
  case (Delete mid u)
  then show ?thesis by (simp add: chatrooms_deleteMessage)
qed

lemma chatrooms_run:
  "\<exists>rs. chatrooms (run rt key d ops) = chatrooms d @ rs \<and> list_all (\<lambda>r. encryptionKey r = Some key) rs"
proof (induction ops rule: rev_induct)
  case Nil
  then show ?case by (simp add: run_def)
next
  case (snoc o' ops)
  then obtain rs where rs: "chatrooms (run rt key d ops) = chatrooms d @ rs"
    "list_all (\<lambda>r. encryptionKey r = Some key) rs" by blast
  have r: "run rt key d (ops @ [o']) = step rt key (run rt key d ops) o'" by (simp add: run_def)
  from chatrooms_step [of rt key "run rt key d ops" o'] show ?case
  proof
    assume "chatrooms (step rt key (run rt key d ops) o') = chatrooms (run rt key d ops)"
    with rs r show ?thesis by auto
  next
    assume "\<exists>r. chatrooms (step rt key (run rt key d ops) o') = chatrooms (run rt key d ops) @ [r] \<and> encryptionKey r = Some key"
    then obtain r' where "chatrooms (step rt key (run rt key d ops) o') = chatrooms (run rt key d ops) @ [r']" "encryptionKey r' = Some key" by blast
    with rs r have "chatrooms (run rt key d (ops @ [o'])) = chatrooms d @ (rs @ [r']) \<and> list_all (\<lambda>r. encryptionKey r = Some key) (rs @ [r'])" by simp
    then show ?thesis by blast
  qed
qed

text \<open>Identifiers stay unique along every sequence of operations.\<close>

lemma wf_insert_room: "wf_db d \<Longrightarrow> wf_db (snd (insert_room d r))"
  by (auto simp: wf_db_def insert_room_def)

lemma wf_insert_message: "wf_db d \<Longrightarrow> wf_db (snd (insert_message d m))"
  by (auto simp: wf_db_def insert_message_def)

lemma wf_createChatRoom: "wf_db d \<Longrightarrow> wf_db (snd (createChatRoom key d now rd))"
proof -
  assume w: "wf_db d"
  have "\<exists>r. snd (createChatRoom key d now rd) = snd (insert_room d r)"
    by (auto simp: createChatRoom_def Let_def split: prod.splits) (metis snd_conv)
  then show ?thesis using wf_insert_room [OF w] by auto
qed

lemma wf_sendMessage:
  assumes w: "wf_db d" and s: "sendMessage rt d now ivb md = Inr (m, d')"
  shows "wf_db d'"
proof -
  from s have "\<exists>m0. d' = snd (insert_message d m0)"
    by (auto simp: sendMessage_def Let_def split: option.splits prod.splits) (metis snd_conv)
  then show ?thesis using wf_insert_message [OF w] by auto
qed

lemma wf_deleteMessage: "wf_db d \<Longrightarrow> wf_db (snd (deleteMessage d mid u))"
proof -
  assume w: "wf_db d"
  let ?ms = "delete_one (by_id_and_sender mid u) (messages d)"
  have "set ?ms \<subseteq> set (messages d)" by (rule delete_one_subset)
  then have "set (map msg_id ?ms) \<subseteq> Some ` {..<next_oid d}"
    using w by (auto simp: wf_db_def)
  then show ?thesis using w by (simp add: wf_db_def deleteMessage_def Let_def delete_one_distinct)
qed

lemma wf_editMessage: "wf_db d \<Longrightarrow> wf_db (snd (editMessage rt d now ivb mid u c))"
proof -
  assume w: "wf_db d"
  show ?thesis
  proof (cases "find (by_id_and_sender mid u) (messages d)")
    case None
    then show ?thesis using w by (simp add: editMessage_def)
  next
    case (Some m)
    show ?thesis
    proof (cases "room_key (getChatRoom d (chatId m))")
      case None
      then show ?thesis using w Some by (simp add: editMessage_def)
    next
      case (Some k)
      let ?f = "\<lambda>m. m\<lparr>content := c,
                  encryptedContent := Some (json_stringify rt (encrypt rt ivb c k)),
                  edited := Some True, editedAt := Some now\<rparr>"
      let ?ms = "snd (update_one (by_id_and_sender mid u) ?f (messages d))"
      have e: "snd (editMessage rt d now ivb mid u c) = d\<lparr>messages := ?ms\<rparr>"
        using Some \<open>find (by_id_and_sender mid u) (messages d) = Some m\<close>
        by (simp add: editMessage_def Let_def split: prod.splits)
      have i: "map msg_id ?ms = map msg_id (messages d)"
        by (rule update_one_map) simp
      show ?thesis using w i by (simp add: e wf_db_def)
    qed
  qed
qed

lemma wf_step: "wf_db d \<Longrightarrow> wf_db (step rt key d o')"
  by (cases o') (auto simp: wf_createChatRoom wf_editMessage wf_deleteMessage split: sum.splits dest: wf_sendMessage)

lemma wf_run: "wf_db d \<Longrightarrow> wf_db (run rt key d ops)"
  unfolding run_def by (induction ops arbitrary: d) (simp_all add: wf_step)

lemma wf_empty_db: "wf_db empty_db"
  by (simp add: wf_db_def empty_db_def)

lemma sendMessage_Inr:
  assumes "sendMessage rt d now ivb md = Inr (m, d')"
  shows "\<exists>k. room_key (getChatRoom d (md_chatId md)) = Some k \<and>
     messages d' = messages d @ [m] \<and> content m = md_content md \<and>
     encryptedContent m = Some (json_stringify rt (encrypt rt ivb (md_content md) k)) \<and>
     msg_id m = Some (next_oid d) \<and> chatId m = md_chatId md \<and> senderId m = md_senderId md"
  using assms by (auto simp: sendMessage_def insert_message_def Let_def split: option.splits)

lemma sendMessage_Inl:
  "room_key (getChatRoom d (md_chatId md)) = None \<Longrightarrow>
   sendMessage rt d now ivb md = Inl (Error ''Chat room encryption key not found'')"
  by (simp add: sendMessage_def)

lemma sendMessage_accepts:
  "room_key (getChatRoom d (md_chatId md)) = Some k \<Longrightarrow> \<exists>m d'. sendMessage rt d now ivb md = Inr (m, d')"
  by (simp add: sendMessage_def Let_def split: prod.splits)

text \<open>The stores of the small system, written out.\<close>

lemma db_room_eq:
  "db_room = \<lparr>chatrooms = [\<lparr>room_id = Some 0, name = ''general'', description = None,
        participants = [''alice''], createdBy = ''alice'', createdAt = 1000,
        isPrivate = False, encryptionKey = Some ''070809''\<rparr>,
      \<lparr>room_id = Some 1, name = ''random'', description = Some ''anything'',
        participants = [''bob''], createdBy = ''bob'', createdAt = 1500,
        isPrivate = True, encryptionKey = Some ''070809''\<rparr>], messages = [], next_oid = 2\<rparr>"
  by code_simp

lemma db_hello_eq:
  "db_hello = db_room\<lparr>messages := [\<lparr>msg_id = Some 2, chatId = 0, senderId = ''alice'',
          senderName = ''Alice'', content = ''hello'',
          encryptedContent = Some ''07olleh|0506|07080901'',
          messageType = ''text'', timestamp = 2000, edited = None,
          editedAt = None, replyTo = None\<rparr>], next_oid := 3\<rparr>"
  by code_simp

lemma wf_db_hello: "wf_db db_hello"
  by code_simp

lemma hello_stored: "hd (messages db_hello) \<in> set (messages db_hello) \<and>
   msg_id (hd (messages db_hello)) = Some 2 \<and> senderId (hd (messages db_hello)) = ''alice''"
  by (simp add: db_hello_eq)

lemma io_abc_eq: "sockets io_abc = [(11, alice), (12, bob), (13, carol)] \<and>
   joined io_abc 11 = {0} \<and> joined io_abc 12 = {0} \<and> joined io_abc 13 = {}"
  by (simp add: io_abc_def on_join_rooms_def)

section \<open>Room keys\<close>

text \<open>
  Claim C1 (room key uniqueness), as the code has it. A stored room is never
  altered or removed by any operation, so it keeps the one key it was created
  with; every room created by the service carries the service's single static
  key, so rooms created by one service process share their key.
\<close>

theorem room_key_fixed_and_service_wide:
  "take (length (chatrooms d)) (chatrooms (run rt key d ops)) = chatrooms d \<and>
   list_all (\<lambda>r. encryptionKey r = Some key)
     (drop (length (chatrooms d)) (chatrooms (run rt key d ops))) \<and>
   encryptionKey (fst (createChatRoom key d now rd)) = Some key"
proof -
  from chatrooms_run [of rt key d ops] obtain rs where
    "chatrooms (run rt key d ops) = chatrooms d @ rs" "list_all (\<lambda>r. encryptionKey r = Some key) rs"
    by blast
  then show ?thesis by (simp add: key_createChatRoom)
qed

theorem room_key_fixed_and_service_wide_witness:
  "take (length (chatrooms db_room))
     (chatrooms (run toy_runtime key0 db_room [Send 2000 [5, 6] hello, CreateRoom 3000 general])) = chatrooms db_room \<and>
   list_all (\<lambda>r. encryptionKey r = Some key0)
     (drop (length (chatrooms db_room))
        (chatrooms (run toy_runtime key0 db_room [Send 2000 [5, 6] hello, CreateRoom 3000 general]))) \<and>
   encryptionKey (fst (createChatRoom key0 db_room 3000 general)) = Some key0"
  using room_key_fixed_and_service_wide [of db_room toy_runtime key0
      "[Send 2000 [5, 6] hello, CreateRoom 3000 general]" 3000 general]
  by simp

text \<open>Two rooms with distinct ids, created one after the other, hold the same key.\<close>

theorem shared_key_counterexample:
  "map room_id (chatrooms (run toy_runtime key0 empty_db [CreateRoom 1000 general, CreateRoom 1500 random_room]))
     = [Some 0, Some 1] \<and>
   map encryptionKey (chatrooms (run toy_runtime key0 empty_db [CreateRoom 1000 general, CreateRoom 1500 random_room]))
     = [Some key0, Some key0]"
  by code_simp

section \<open>What a send persists\<close>

text \<open>
  Claim C3 (plaintext transience), as the code has it. The record that an
  accepted \<open>sendMessage\<close> appends to the store holds the plaintext in \<open>content\<close>
  beside the serialised ciphertext, nonce and tag in \<open>encryptedContent\<close>.
\<close>

theorem sendMessage_persists_plaintext_beside_ciphertext:
  assumes "sendMessage rt d now ivb md = Inr (m, d')"
  shows "messages d' = messages d @ [m] \<and> content m = md_content md \<and>
         (\<exists>k. room_key (getChatRoom d (md_chatId md)) = Some k \<and>
              encryptedContent m = Some (json_stringify rt (encrypt rt ivb (md_content md) k)))"
  using sendMessage_Inr [OF assms] by auto

theorem sendMessage_persists_plaintext_beside_ciphertext_witness:
  "sendMessage toy_runtime db_room 2000 [5, 6] hello =
     Inr (\<lparr>msg_id = Some 2, chatId = 0, senderId = ''alice'',
          senderName = ''Alice'', content = ''hello'',
          encryptedContent = Some ''07olleh|0506|07080901'',
          messageType = ''text'', timestamp = 2000, edited = None,
          editedAt = None, replyTo = None\<rparr>, db_hello) \<and>
   map content (messages db_hello) = map content (messages db_room) @ [md_content hello]"
proof -
  have s: "sendMessage toy_runtime db_room 2000 [5, 6] hello =
     Inr (\<lparr>msg_id = Some 2, chatId = 0, senderId = ''alice'',
          senderName = ''Alice'', content = ''hello'',
          encryptedContent = Some ''07olleh|0506|07080901'',
          messageType = ''text'', timestamp = 2000, edited = None,
          editedAt = None, replyTo = None\<rparr>, db_hello)"
    by code_simp
  from sendMessage_persists_plaintext_beside_ciphertext [OF s] s show ?thesis by simp
qed

text \<open>The stored record of a sent \<open>hello\<close> reads \<open>hello\<close>.\<close>

theorem plaintext_persisted_counterexample:
  "map content (messages (run toy_runtime key0 db_room [Send 2000 [5, 6] hello])) = [''hello'']"
  by code_simp

text \<open>An accepted edit stores the new plaintext in the same way.\<close>

lemma editMessage_persists_plaintext:
  assumes "fst (editMessage rt d now ivb mid u c)"
  shows "\<exists>m \<in> set (messages (snd (editMessage rt d now ivb mid u c))). msg_id m = Some mid \<and> content m = c"
proof -
  from assms obtain m0 where f: "find (by_id_and_sender mid u) (messages d) = Some m0"
    by (auto simp: editMessage_def split: option.splits)
  with assms obtain k where k: "room_key (getChatRoom d (chatId m0)) = Some k"
    by (auto simp: editMessage_def split: option.splits)
  let ?f = "\<lambda>m. m\<lparr>content := c,
                  encryptedContent := Some (json_stringify rt (encrypt rt ivb c k)),
                  edited := Some True, editedAt := Some now\<rparr>"
  have e: "messages (snd (editMessage rt d now ivb mid u c)) =
             snd (update_one (by_id_and_sender mid u) ?f (messages d))"
    using f k by (simp add: editMessage_def Let_def split: prod.splits)
  from f have "find (by_id_and_sender mid u) (messages d) \<noteq> None" by simp
  from update_one_hit [OF this, of ?f]
  obtain x where "by_id_and_sender mid u x" "?f x \<in> set (snd (update_one (by_id_and_sender mid u) ?f (messages d)))"
    by blast
  then show ?thesis unfolding e by (intro bexI [of _ "?f x"]) (simp_all add: by_id_and_sender_def)
qed

section \<open>Editing and deleting\<close>

lemma put_message_no_match:
  assumes "find (by_id_and_sender mid (user_id usr)) (messages d) = None" "isLength 1 5000 c"
  shows "put_message rt d now ivb usr (MongoId mid) c =
     (\<lparr>status = 404, body = JsonError ''Message not found or unauthorized''\<rparr>, d)"
  using assms by (simp add: put_message_def validateRequest_def check_def editMessage_no_match)

lemma put_message_invalid:
  assumes "\<not> isLength 1 5000 c"
  shows "put_message rt d now ivb usr p c =
     (\<lparr>status = 400, body = JsonValidationFailed (check ''messageId'' (isMongoId p) @ [''content''])\<rparr>, d)"
  using assms by (simp add: put_message_def validateRequest_def check_def)

lemma delete_route_no_match:
  assumes "find (by_id_and_sender mid (user_id usr)) (messages d) = None"
  shows "delete_message_route d usr (MongoId mid) =
     (\<lparr>status = 404, body = JsonError ''Message not found or unauthorized''\<rparr>, d)"
  using assms by (simp add: delete_message_route_def validateRequest_def check_def deleteMessage_no_match)

text \<open>
  Claim C6 (edit/delete authorization), as the code has it. \<open>editMessage\<close> and
  \<open>deleteMessage\<close> succeed only for the sender of the message; for any other
  requester they return \<open>False\<close> and leave the store as it was, and the routes
  answer without changing the store (the delete route with status 404).
\<close>

theorem edit_delete_only_by_sender:
  assumes "wf_db d" and "m \<in> set (messages d)" and "msg_id m = Some mid"
  shows "(fst (editMessage rt d now ivb mid (user_id usr) c) \<longrightarrow> user_id usr = senderId m) \<and>
         (fst (deleteMessage d mid (user_id usr)) \<longrightarrow> user_id usr = senderId m) \<and>
         (user_id usr \<noteq> senderId m \<longrightarrow>
            editMessage rt d now ivb mid (user_id usr) c = (False, d) \<and>
            deleteMessage d mid (user_id usr) = (False, d) \<and>
            snd (put_message rt d now ivb usr (MongoId mid) c) = d \<and>
            status (fst (put_message rt d now ivb usr (MongoId mid) c)) \<in> {400, 404} \<and>
            delete_message_route d usr (MongoId mid) =
              (\<lparr>status = 404, body = JsonError ''Message not found or unauthorized''\<rparr>, d))"
proof -
  have n: "find (by_id_and_sender mid (user_id usr)) (messages d) = None" if "user_id usr \<noteq> senderId m"
    using assms that by (intro find_other_sender [of _ m]) (auto simp: wf_db_def)
  have e: "editMessage rt d now ivb mid (user_id usr) c = (False, d)" if "user_id usr \<noteq> senderId m"
    using n [OF that] by (rule editMessage_no_match)
  have dl: "deleteMessage d mid (user_id usr) = (False, d)" if "user_id usr \<noteq> senderId m"
    using n [OF that] by (rule deleteMessage_no_match)
  have p: "snd (put_message rt d now ivb usr (MongoId mid) c) = d \<and>
           status (fst (put_message rt d now ivb usr (MongoId mid) c)) \<in> {400, 404}"
    if "user_id usr \<noteq> senderId m"
    using put_message_no_match [OF n [OF that], of c rt now ivb] put_message_invalid [of c rt d now ivb usr "MongoId mid"]
    by (cases "isLength 1 5000 c") simp_all
  have se: "user_id usr = senderId m" if "fst (editMessage rt d now ivb mid (user_id usr) c)"
  proof (rule ccontr)
    assume "user_id usr \<noteq> senderId m"
    from e [OF this] that show False by simp
  qed
  have sd: "user_id usr = senderId m" if "fst (deleteMessage d mid (user_id usr))"
  proof (rule ccontr)
    assume "user_id usr \<noteq> senderId m"
    from dl [OF this] that show False by simp
  qed
  show ?thesis using e dl p delete_route_no_match [OF n] se sd by blast
qed

theorem edit_delete_only_by_sender_witness:
  "wf_db db_hello \<and> hd (messages db_hello) \<in> set (messages db_hello) \<and>
   msg_id (hd (messages db_hello)) = Some 2 \<and>
   user_id bob \<noteq> senderId (hd (messages db_hello)) \<and>
   editMessage toy_runtime db_hello 3000 [3, 4] 2 (user_id bob) ''x'' = (False, db_hello) \<and>
   deleteMessage db_hello 2 (user_id bob) = (False, db_hello) \<and>
   fst (editMessage toy_runtime db_hello 3000 [3, 4] 2 (user_id alice) ''x'') \<and>
   user_id alice = senderId (hd (messages db_hello))"
proof -
  have e: "fst (editMessage toy_runtime db_hello 3000 [3, 4] 2 (user_id alice) ''x'')" by code_simp
  have w: "wf_db db_hello" by code_simp
  from hello_stored have h: "hd (messages db_hello) \<in> set (messages db_hello)"
    "msg_id (hd (messages db_hello)) = Some 2" by simp_all
  have b: "user_id bob \<noteq> senderId (hd (messages db_hello))" using hello_stored by (simp add: bob_def)
  from edit_delete_only_by_sender [OF w h, of toy_runtime 3000 "[3, 4]" bob "''x''"]
    edit_delete_only_by_sender [OF w h, of toy_runtime 3000 "[3, 4]" alice "''x''"] w h b e
  show ?thesis by blast
qed

text \<open>What a requester other than the sender gets back is \<open>False\<close>, and from the
  routes the status 404 with the text shared with a missing message.\<close>

theorem unauthorized_result_counterexample:
  "editMessage toy_runtime db_hello 3000 [3, 4] 2 (user_id bob) ''x'' = (False, db_hello) \<and>
   editMessage toy_runtime db_hello 3000 [3, 4] 9 (user_id bob) ''x'' = (False, db_hello) \<and>
   fst (put_message toy_runtime db_hello 3000 [3, 4] bob (MongoId 2) ''x'') =
     \<lparr>status = 404, body = JsonError ''Message not found or unauthorized''\<rparr> \<and>
   fst (put_message toy_runtime db_hello 3000 [3, 4] bob (MongoId 9) ''x'') =
     \<lparr>status = 404, body = JsonError ''Message not found or unauthorized''\<rparr> \<and>
   fst (delete_message_route db_hello bob (MongoId 2)) =
     \<lparr>status = 404, body = JsonError ''Message not found or unauthorized''\<rparr> \<and>
   fst (delete_message_route db_hello bob (MongoId 9)) =
     \<lparr>status = 404, body = JsonError ''Message not found or unauthorized''\<rparr>"
proof -
  have n1: "find (by_id_and_sender 2 (user_id bob)) (messages db_hello) = None" by code_simp
  have n2: "find (by_id_and_sender 9 (user_id bob)) (messages db_hello) = None" by code_simp
  have l: "isLength 1 5000 ''x''" by (simp add: isLength_def)
  show ?thesis
    by (simp add: editMessage_no_match [OF n1] editMessage_no_match [OF n2]
        put_message_no_match [OF n1 l] put_message_no_match [OF n2 l]
        delete_route_no_match [OF n1] delete_route_no_match [OF n2])
qed

text \<open>
  Claim C10 (failure causes collapse). A requester who is not the sender and a
  message id that is not stored give the same result: \<open>False\<close> with the store
  unchanged from the service, and one and the same 404 response from each
  route.
\<close>

theorem edit_delete_failures_collapse:
  assumes "wf_db d" and "m \<in> set (messages d)" and "msg_id m = Some mid"
    and "senderId m \<noteq> user_id usr" and "Some missing \<notin> set (map msg_id (messages d))"
  shows "editMessage rt d now ivb mid (user_id usr) c = (False, d) \<and>
         editMessage rt d now ivb missing (user_id usr) c = (False, d) \<and>
         deleteMessage d mid (user_id usr) = (False, d) \<and>
         deleteMessage d missing (user_id usr) = (False, d) \<and>
         put_message rt d now ivb usr (MongoId mid) c = put_message rt d now ivb usr (MongoId missing) c \<and>
         (isLength 1 5000 c \<longrightarrow> put_message rt d now ivb usr (MongoId mid) c =
            (\<lparr>status = 404, body = JsonError ''Message not found or unauthorized''\<rparr>, d)) \<and>
         delete_message_route d usr (MongoId mid) =
            (\<lparr>status = 404, body = JsonError ''Message not found or unauthorized''\<rparr>, d) \<and>
         delete_message_route d usr (MongoId missing) =
            (\<lparr>status = 404, body = JsonError ''Message not found or unauthorized''\<rparr>, d)"
proof -
  have n1: "find (by_id_and_sender mid (user_id usr)) (messages d) = None"
    using assms by (intro find_other_sender [of _ m]) (auto simp: wf_db_def)
  have n2: "find (by_id_and_sender missing (user_id usr)) (messages d) = None"
    using assms(5) by (rule find_missing_id)
  have p: "put_message rt d now ivb usr (MongoId mid) c = put_message rt d now ivb usr (MongoId missing) c"
    using put_message_no_match [OF n1, of c rt now ivb] put_message_no_match [OF n2, of c rt now ivb]
      put_message_invalid [of c rt d now ivb usr "MongoId mid"]
      put_message_invalid [of c rt d now ivb usr "MongoId missing"]
    by (cases "isLength 1 5000 c") simp_all
  show ?thesis
    using editMessage_no_match [OF n1] editMessage_no_match [OF n2]
      deleteMessage_no_match [OF n1] deleteMessage_no_match [OF n2] p
      put_message_no_match [OF n1] put_message_no_match [OF n2]
      delete_route_no_match [OF n1] delete_route_no_match [OF n2]
    by simp
qed

theorem edit_delete_failures_collapse_witness:
  "wf_db db_hello \<and> hd (messages db_hello) \<in> set (messages db_hello) \<and>
   msg_id (hd (messages db_hello)) = Some 2 \<and>
   senderId (hd (messages db_hello)) \<noteq> user_id bob \<and>
   Some 9 \<notin> set (map msg_id (messages db_hello)) \<and> isLength 1 5000 ''x'' \<and>
   editMessage toy_runtime db_hello 3000 [3, 4] 2 (user_id bob) ''x'' =
     editMessage toy_runtime db_hello 3000 [3, 4] 9 (user_id bob) ''x'' \<and>
   put_message toy_runtime db_hello 3000 [3, 4] bob (MongoId 2) ''x'' =
     put_message toy_runtime db_hello 3000 [3, 4] bob (MongoId 9) ''x'' \<and>
   put_message toy_runtime db_hello 3000 [3, 4] bob (MongoId 2) ''x'' =
     (\<lparr>status = 404, body = JsonError ''Message not found or unauthorized''\<rparr>, db_hello) \<and>
   delete_message_route db_hello bob (MongoId 2) = delete_message_route db_hello bob (MongoId 9)"
proof -
  have w: "wf_db db_hello" by code_simp
  from hello_stored have h: "hd (messages db_hello) \<in> set (messages db_hello)"
    "msg_id (hd (messages db_hello)) = Some 2" by simp_all
  have b: "senderId (hd (messages db_hello)) \<noteq> user_id bob" using hello_stored by (simp add: bob_def)
  have m: "Some 9 \<notin> set (map msg_id (messages db_hello))" by (simp add: db_hello_eq)
  have l: "isLength 1 5000 ''x''" by (simp add: isLength_def)
  from edit_delete_failures_collapse [OF w h b m, of toy_runtime 3000 "[3, 4]" "''x''"] w h b m l
  show ?thesis by metis
qed

section \<open>Listing messages\<close>

lemma sorted_desc_rev: "sorted (map (\<lambda>m. - f m) xs) \<Longrightarrow> sorted (map f (rev xs))" for f :: "'a \<Rightarrow> int"
  by (simp add: sorted_wrt_map sorted_wrt_rev rev_map)

lemma sorted_window: "sorted (map f xs) \<Longrightarrow> sorted (map f (window limit skip xs))"
  by (simp add: window_def Let_def take_map [symmetric] drop_map [symmetric] sorted_wrt_take sorted_wrt_drop)

lemma newest_first_sorted: "sorted (map (\<lambda>m. - timestamp m) (newest_first d cid))"
  by (simp add: newest_first_def)

lemma newest_first_set: "set (newest_first d cid) = {m \<in> set (messages d). chatId m = cid}"
  by (auto simp: newest_first_def)

lemma decrypt_message_keeps:
  "msg_id (decrypt_message rt k m) = msg_id m \<and> timestamp (decrypt_message rt k m) = timestamp m
   \<and> chatId (decrypt_message rt k m) = chatId m"
  by (simp add: decrypt_message_def split: option.splits)

lemma getMessages_page:
  assumes "0 \<le> skip"
  shows "getMessages rt d cid limit skip =
    Inr (rev (case room_key (getChatRoom d cid) of
                Some k \<Rightarrow> map (decrypt_message rt k) (window limit skip (newest_first d cid))
              | None \<Rightarrow> window limit skip (newest_first d cid)))"
  using assms by (simp add: getMessages_def find_page_def)

lemma tampered_page:
  "map content (rev (map (decrypt_message toy_runtime key0) (window 50 0 (newest_first db_tampered 0)))) =
     [''hello'', decryption_failed]"
  by code_simp

lemma tampered_ids:
  "rev (map msg_id (window 50 0 (newest_first db_tampered 0))) = [Some 2, Some 3] \<and>
   rev (map timestamp (window 50 0 (newest_first db_tampered 0))) = [2000, 2500]"
  by code_simp

text \<open>
  Claim C7 (decode-failure containment). Listing the messages of a room that
  has a key always returns the page: every record of the page is returned,
  and a record whose stored ciphertext does not parse or does not decrypt
  carries the marker \<open>decryption_failed\<close> as content while every other record
  carries its decrypted text.
\<close>

theorem getMessages_contains_decode_failure:
  assumes "room_key (getChatRoom d cid) = Some k" and "0 \<le> skip"
  shows "getMessages rt d cid limit skip =
           Inr (rev (map (decrypt_message rt k) (window limit skip (newest_first d cid)))) \<and>
         (\<forall>m ec. encryptedContent m = Some ec \<and> ec \<noteq> [] \<longrightarrow>
            decrypt_message rt k m =
              m\<lparr>content := (case json_parse rt ec of
                               None \<Rightarrow> decryption_failed
                             | Some e \<Rightarrow> (case decrypt rt e k of
                                            None \<Rightarrow> decryption_failed
                                          | Some text \<Rightarrow> text))\<rparr>)"
  using assms by (auto simp: getMessages_page decrypt_message_def split: option.splits)

theorem getMessages_contains_decode_failure_witness:
  "room_key (getChatRoom db_tampered 0) = Some key0 \<and> (0::int) \<le> 0 \<and>
   getMessages toy_runtime db_tampered 0 50 0 =
     Inr (rev (map (decrypt_message toy_runtime key0) (window 50 0 (newest_first db_tampered 0)))) \<and>
   map content (rev (map (decrypt_message toy_runtime key0) (window 50 0 (newest_first db_tampered 0)))) =
     [''hello'', decryption_failed]"
proof -
  have k: "room_key (getChatRoom db_tampered 0) = Some key0" by code_simp
  have z: "(0::int) \<le> 0" by simp
  from getMessages_contains_decode_failure [OF k z, of toy_runtime 50] k z tampered_page
  show ?thesis by blast
qed

text \<open>
  Claim C8 (list ordering). For every room and page, \<open>getMessages\<close> returns the
  page of the newest-first log in reverse, which is in ascending order of
  timestamp.
\<close>

theorem getMessages_ascending:
  assumes "0 \<le> skip"
  shows "\<exists>ms. getMessages rt d cid limit skip = Inr ms \<and>
           map msg_id ms = rev (map msg_id (window limit skip (newest_first d cid))) \<and>
           map timestamp ms = rev (map timestamp (window limit skip (newest_first d cid))) \<and>
           sorted (map timestamp ms)"
proof -
  let ?page = "window limit skip (newest_first d cid)"
  let ?out = "case room_key (getChatRoom d cid) of
                Some k \<Rightarrow> map (decrypt_message rt k) ?page | None \<Rightarrow> ?page"
  have g: "getMessages rt d cid limit skip = Inr (rev ?out)"
    using assms by (rule getMessages_page)
  have i: "map msg_id ?out = map msg_id ?page"
    by (simp add: decrypt_message_keeps split: option.splits)
  have t: "map timestamp ?out = map timestamp ?page"
    by (simp add: decrypt_message_keeps split: option.splits)
  have "sorted (map (\<lambda>m. - timestamp m) ?page)"
    using newest_first_sorted by (rule sorted_window)
  then have "sorted (map timestamp (rev ?page))" by (rule sorted_desc_rev)
  moreover have "map timestamp (rev ?out) = map timestamp (rev ?page)"
    using t by (simp add: rev_map [symmetric])
  ultimately have s: "sorted (map timestamp (rev ?out))" by simp
  have i': "map msg_id (rev ?out) = rev (map msg_id ?page)"
    using i by (simp add: rev_map [symmetric])
  have t': "map timestamp (rev ?out) = rev (map timestamp ?page)"
    using t by (simp add: rev_map [symmetric])
  from g i' t' s show ?thesis by blast
qed

theorem getMessages_ascending_witness:
  "(0::int) \<le> 0 \<and>
   (\<exists>ms. getMessages toy_runtime db_tampered 0 50 0 = Inr ms \<and>
      map msg_id ms = [Some 2, Some 3] \<and> map timestamp ms = [2000, 2500] \<and> sorted (map timestamp ms))"
proof -
  have z: "(0::int) \<le> 0" by simp
  from getMessages_ascending [OF z, of toy_runtime db_tampered 0 50] tampered_ids z
  show ?thesis by metis
qed

section \<open>Fan-out\<close>

lemma recipients_io_to:
  "recipients (io_to io r e) = {s \<in> fst ` set (sockets io). r \<in> joined io s}"
  by (force simp: recipients_def io_to_def)

lemma recipients_socket_to:
  "recipients (socket_to io self r e) = {s \<in> fst ` set (sockets io). r \<in> joined io s} - {self}"
  by (force simp: recipients_def socket_to_def)

lemma on_send_message_accepted:
  assumes "room_key (getChatRoom d cid) = Some k"
  shows "\<exists>m d'. on_send_message rt d io now ivb self usr cid cont mtype reply =
            (d', io_to io cid (NewMessage m)) \<and> chatId m = cid \<and> content m = cont \<and>
            messages d' = messages d @ [m]"
proof -
  let ?md = "\<lparr>md_chatId = cid, md_senderId = user_id usr,
              md_senderName = display_or_email usr, md_content = cont,
              md_messageType = (case mtype of None \<Rightarrow> ''text'' | Some t \<Rightarrow> t),
              md_replyTo = reply\<rparr>"
  from assms obtain m d' where s: "sendMessage rt d now ivb ?md = Inr (m, d')"
    using sendMessage_accepts [of d ?md k rt now ivb] by auto
  from sendMessage_Inr [OF s] have "chatId m = cid" "content m = cont" "messages d' = messages d @ [m]"
    by auto
  with s show ?thesis by (simp add: on_send_message_def)
qed

lemma on_send_message_rejected:
  assumes "room_key (getChatRoom d cid) = None"
  shows "on_send_message rt d io now ivb self usr cid cont mtype reply =
           (d, [(self, ErrorEvent ''Failed to send message'')])"
  using assms by (simp add: on_send_message_def sendMessage_Inl socket_emit_def)

lemma on_edit_message_broadcast:
  assumes "fst (editMessage rt d now ivb mid (user_id usr) c)"
  shows "recipients (snd (on_edit_message rt d io now now' ivb self usr mid c)) =
           insert self (fst ` set (sockets io))"
  using assms by (force simp: on_edit_message_def case_prod_beta Let_def recipients_def
      socket_emit_def socket_broadcast_def)

lemma on_delete_message_broadcast:
  assumes "fst (deleteMessage d mid (user_id usr))"
  shows "recipients (snd (on_delete_message d io self usr mid)) =
           insert self (fst ` set (sockets io))"
  using assms by (force simp: on_delete_message_def case_prod_beta Let_def recipients_def
      socket_emit_def socket_broadcast_def)

text \<open>
  Claim C2 (fan-out confidentiality), as the code has it. A typing event for a
  room reaches exactly the connected sockets joined to the room other than the
  one that sent it; an accepted message reaches exactly the connected sockets
  joined to its room; a rejected one reaches only its sender, as an error.
\<close>

theorem new_message_and_typing_scoped_to_room:
  "recipients (on_typing_start io self usr cid) =
     {s \<in> fst ` set (sockets io). cid \<in> joined io s} - {self} \<and>
   recipients (on_typing_stop io self usr cid) =
     {s \<in> fst ` set (sockets io). cid \<in> joined io s} - {self} \<and>
   (room_key (getChatRoom d cid) \<noteq> None \<longrightarrow>
      (\<exists>m. snd (on_send_message rt d io now ivb self usr cid cont mtype reply) =
             io_to io cid (NewMessage m) \<and> chatId m = cid) \<and>
      recipients (snd (on_send_message rt d io now ivb self usr cid cont mtype reply)) =
        {s \<in> fst ` set (sockets io). cid \<in> joined io s}) \<and>
   (room_key (getChatRoom d cid) = None \<longrightarrow>
      on_send_message rt d io now ivb self usr cid cont mtype reply =
        (d, [(self, ErrorEvent ''Failed to send message'')]))"
proof -
  have a: "(\<exists>m. snd (on_send_message rt d io now ivb self usr cid cont mtype reply) =
             io_to io cid (NewMessage m) \<and> chatId m = cid) \<and>
      recipients (snd (on_send_message rt d io now ivb self usr cid cont mtype reply)) =
        {s \<in> fst ` set (sockets io). cid \<in> joined io s}" if "room_key (getChatRoom d cid) \<noteq> None"
  proof -
    from that obtain k where "room_key (getChatRoom d cid) = Some k" by auto
    from on_send_message_accepted [OF this, of rt io now ivb self usr cont mtype reply]
    obtain m d' where "on_send_message rt d io now ivb self usr cid cont mtype reply =
            (d', io_to io cid (NewMessage m))" "chatId m = cid" by blast
    then show ?thesis by (auto simp: recipients_io_to)
  qed
  show ?thesis
    using a on_send_message_rejected [of d cid rt io now ivb self usr cont mtype reply]
    by (simp add: on_typing_start_def on_typing_stop_def recipients_socket_to)
qed

theorem new_message_and_typing_scoped_to_room_witness:
  "room_key (getChatRoom db_room 0) \<noteq> None \<and>
   11 \<in> recipients (snd (on_send_message toy_runtime db_room io_abc 2000 [5, 6] 11 alice 0 ''hello'' None None)) \<and>
   12 \<in> recipients (snd (on_send_message toy_runtime db_room io_abc 2000 [5, 6] 11 alice 0 ''hello'' None None)) \<and>
   13 \<notin> recipients (snd (on_send_message toy_runtime db_room io_abc 2000 [5, 6] 11 alice 0 ''hello'' None None)) \<and>
   11 \<notin> recipients (on_typing_start io_abc 11 alice 0) \<and>
   12 \<in> recipients (on_typing_start io_abc 11 alice 0) \<and>
   13 \<notin> recipients (on_typing_start io_abc 11 alice 0)"
proof -
  have k: "room_key (getChatRoom db_room 0) \<noteq> None" by code_simp
  from new_message_and_typing_scoped_to_room
         [of io_abc 11 alice 0 db_room toy_runtime 2000 "[5, 6]" "''hello''" None None] k
  have "recipients (snd (on_send_message toy_runtime db_room io_abc 2000 [5, 6] 11 alice 0 ''hello'' None None)) =
          {s \<in> fst ` set (sockets io_abc). 0 \<in> joined io_abc s}"
    and "recipients (on_typing_start io_abc 11 alice 0) = {s \<in> fst ` set (sockets io_abc). 0 \<in> joined io_abc s} - {11}"
    by blast+
  then show ?thesis using k by (simp add: io_abc_eq)
qed

text \<open>A joined socket does not receive its own typing event, and a socket that
  joined no room receives the edit and the deletion of a message of room 0.\<close>

theorem fanout_counterexample:
  "11 \<in> fst ` set (sockets io_abc) \<and> 0 \<in> joined io_abc 11 \<and>
   11 \<notin> recipients (on_typing_start io_abc 11 alice 0) \<and>
   0 \<notin> joined io_abc 13 \<and>
   13 \<in> recipients (snd (on_edit_message toy_runtime db_hello io_abc 3000 3001 [3, 4] 11 alice 2 ''x'')) \<and>
   13 \<in> recipients (snd (on_delete_message db_hello io_abc 11 alice 2))"
proof -
  have e: "fst (editMessage toy_runtime db_hello 3000 [3, 4] 2 (user_id alice) ''x'')"
    by code_simp
  have d: "fst (deleteMessage db_hello 2 (user_id alice))"
    by code_simp
  show ?thesis
    by (simp add: on_edit_message_broadcast [OF e] on_delete_message_broadcast [OF d]
        io_abc_eq recipients_socket_to on_typing_start_def)
qed

section \<open>Validation of a send\<close>

text \<open>The route validates before it calls the service, and reports a missing
  room as a failure of the send.\<close>

lemma post_message_rejects_invalid:
  assumes "\<not> isLength 1 5000 cont \<or> mtype \<notin> set [''text'', ''file'', ''image'']"
  shows "\<exists>errs. post_message rt d now ivb usr roomId cont mtype reply =
           (\<lparr>status = 400, body = JsonValidationFailed errs\<rparr>, d)"
  using assms by (auto simp: post_message_def validateRequest_def check_def)

lemma post_message_unknown_room:
  assumes "isLength 1 5000 cont" and "mtype \<in> set [''text'', ''file'', ''image'']"
    and "room_key (getChatRoom d rid) = None"
  shows "post_message rt d now ivb usr (MongoId rid) cont mtype reply =
           (\<lparr>status = 500, body = JsonError ''Failed to send message''\<rparr>, d)"
  using assms by (simp add: post_message_def validateRequest_def check_def sendMessage_Inl)

text \<open>
  Claim C9 (send validation). Through the socket handler a send with empty
  content, or with a message type outside the enumeration, is stored and
  broadcast; the route rejects the same input with status 400.
\<close>

theorem socket_send_unvalidated:
  "map content (messages (fst (on_send_message toy_runtime db_room io_abc 2000 [5, 6] 11 alice 0 [] None None))) = [[]] \<and>
   map messageType (messages (fst (on_send_message toy_runtime db_room io_abc 2000 [5, 6] 11 alice 0 ''hi'' (Some ''bogus'') None))) = [''bogus''] \<and>
   fst (post_message toy_runtime db_room 2000 [5, 6] alice (MongoId 0) [] ''text'' None) =
     \<lparr>status = 400, body = JsonValidationFailed [''content'']\<rparr> \<and>
   fst (post_message toy_runtime db_room 2000 [5, 6] alice (MongoId 0) ''hi'' ''bogus'' None) =
     \<lparr>status = 400, body = JsonValidationFailed [''messageType'']\<rparr>"
  by code_simp

end
